theory Spec2Isabelle
  imports Main
begin

section \<open>Values of the host language\<close>

text \<open>
  \<^verbatim>\<open>play.py\<close> is glue code: it reads options, asks for a model name, resolves files,
  picks a device and builds three objects. Its decisions depend on a few Python values
  only: \<^verbatim>\<open>None\<close>, strings, integers and \<^verbatim>\<open>pathlib.Path\<close> objects.

  A path is kept the way \<^verbatim>\<open>pathlib.PurePosixPath\<close> keeps it: a root (\<^verbatim>\<open>""\<close> for a
  relative path, \<^verbatim>\<open>"/"\<close>, or \<^verbatim>\<open>"//"\<close> for exactly two leading slashes) and the list of
  components, without the empty ones and without \<^verbatim>\<open>"."\<close>.
\<close>

record pure_path =
  p_root :: string
  p_parts :: "string list"

datatype py_value = PyNone | PyStr string | PyInt int | PyPath pure_path

datatype error =
    AssertionError
  | TypeError
  | ValueError
  | AttributeError
  | RetrievalError
  | FileNotFoundError
  | InstantiationError
  | CheckpointError

text \<open>\<^verbatim>\<open>str.split("/")\<close>: the pieces between the separators, empty pieces included.\<close>

fun split_sep :: "string \<Rightarrow> string list" where
  "split_sep [] = [[]]"
| "split_sep (c # cs) =
     (if c = CHR ''/'' then [] # split_sep cs
      else (case split_sep cs of [] \<Rightarrow> [[c]] | x # xs \<Rightarrow> (c # x) # xs))"

definition components :: "string \<Rightarrow> string list" where
  "components s = filter (\<lambda>x. x \<noteq> [] \<and> x \<noteq> ''.'') (split_sep s)"

definition is_abs :: "string \<Rightarrow> bool" where
  "is_abs s = (take 1 s = ''/'')"

definition splitroot :: "string \<Rightarrow> string" where
  "splitroot s =
     (if take 1 s \<noteq> ''/'' then ''''
      else if take 1 (drop 1 s) \<noteq> ''/'' \<or> take 1 (drop 2 s) = ''/'' then ''/''
      else ''//'')"

text \<open>\<^verbatim>\<open>Path(s)\<close>.\<close>

definition Path :: "string \<Rightarrow> pure_path" where
  "Path s = \<lparr>p_root = splitroot s, p_parts = components s\<rparr>"

text \<open>
  \<^verbatim>\<open>p / s\<close> for a path \<^verbatim>\<open>p\<close> and a string \<^verbatim>\<open>s\<close>: an absolute right operand replaces
  the left one, a relative one is appended below it.
\<close>

definition truediv :: "pure_path \<Rightarrow> string \<Rightarrow> pure_path" where
  "truediv p s =
     (if is_abs s then Path s
      else \<lparr>p_root = p_root p, p_parts = p_parts p @ components s\<rparr>)"

section \<open>Options, configuration and the objects built\<close>

text \<open>
  What \<^verbatim>\<open>argparse\<close> hands to the conversion step: the flags that were present and the
  values given to the valued options (\<open>None\<close> when the option is absent). The integer
  options are already tokens of type int; the value of \<^verbatim>\<open>--model\<close> is still the string
  typed on the command line.
\<close>

record cli =
  cli_record :: bool
  cli_store_denoising_trajectory :: bool
  cli_store_original_obs :: bool
  cli_mouse_multiplier :: "int option"
  cli_size_multiplier :: "int option"
  cli_compile :: bool
  cli_colab :: bool
  cli_fps :: "int option"
  cli_no_header :: bool
  cli_model :: "string option"

text \<open>The \<^verbatim>\<open>argparse.Namespace\<close>. \<^verbatim>\<open>args.record\<close> is \<open>record_flag\<close> here.\<close>

record args =
  record_flag :: bool
  store_denoising_trajectory :: bool
  store_original_obs :: bool
  mouse_multiplier :: int
  size_multiplier :: int
  compile :: bool
  colab :: bool
  fps :: int
  no_header :: bool
  model :: py_value

text \<open>
  The part of the configuration documents that the file reads.
  \<^verbatim>\<open>cfg.env.train.size\<close> is an integer or a sequence.
\<close>

datatype size_cfg = SizeInt int | SizeSeq "int list"

record train_cfg =
  train_id :: py_value
  train_size :: size_cfg

record env_cfg =
  train :: train_cfg
  num_actions :: int

record inner_model_cfg =
  num_steps_conditioning :: int

record denoiser_cfg =
  inner_model :: inner_model_cfg

record agent_cfg =
  denoiser :: denoiser_cfg
  upsampler :: "denoiser_cfg option"

record cfg =
  agent :: agent_cfg
  env :: env_cfg
  world_model_env :: string

datatype device = Cuda nat | Mps | Cpu

fun device_type :: "device \<Rightarrow> string" where
  "device_type (Cuda _) = ''cuda''"
| "device_type Mps = ''mps''"
| "device_type Cpu = ''cpu''"

text \<open>
  The classes \<^verbatim>\<open>Agent\<close>, \<^verbatim>\<open>WorldModelEnv\<close>, \<^verbatim>\<open>PlayEnv\<close> and \<^verbatim>\<open>Game\<close> are imported, not
  defined in \<^verbatim>\<open>play.py\<close>. An object is the record of what this file gives to its
  constructor and does to it afterwards; its sub-modules are opaque names.
\<close>

record agent_obj =
  ag_denoiser :: string
  ag_upsampler :: "string option"
  ag_rew_end_model :: "string option"
  ag_device :: "device option"
  ag_training :: bool
  ag_ckpt :: "pure_path option"

datatype callable = Method string | Compiled callable string

record wm_env_cfg =
  wm_source :: string
  num_batches_to_preload :: int

record wm_env_obj =
  wm_denoiser :: string
  wm_upsampler :: "string option"
  wm_rew_end_model :: "string option"
  wm_spawn_dir :: pure_path
  wm_num_envs :: int
  wm_seq_length :: int
  wm_cfg :: wm_env_cfg
  return_denoising_trajectory :: bool
  predict_next_obs :: callable
  upsample_next_obs :: callable

record play_env =
  pe_agent :: agent_obj
  pe_wm_env :: wm_env_obj
  pe_record_mode :: bool
  pe_store_denoising_trajectory :: bool
  pe_store_original_obs :: bool

record game =
  g_env :: play_env
  g_size :: "int \<times> int"
  g_mouse_multiplier :: int
  g_fps :: int
  g_verbose :: bool
  g_use_colab :: bool

section \<open>The outside world and the effects\<close>

text \<open>
  Everything the file asks of its collaborators: the line typed at the prompt, the
  model registry, the YAML files on disk, the two availability probes, the construction
  of the agent from its configuration, the checkpoint, and the composed base
  configuration. \<open>None\<close> is a call that raises.
\<close>

record world =
  stdin_line :: string
  hub_snapshot :: "string \<Rightarrow> string \<Rightarrow> string option"
  yaml_agent :: "pure_path \<Rightarrow> agent_cfg option"
  yaml_env :: "pure_path \<Rightarrow> env_cfg option"
  cuda_is_available :: bool
  mps_is_available :: bool
  new_agent :: "agent_cfg \<Rightarrow> int \<Rightarrow> agent_obj option"
  ckpt_readable :: "pure_path \<Rightarrow> bool"
  hydra_compose :: "string \<Rightarrow> cfg option"

datatype event =
    Input string
  | Print string
  | PrintCfg
  | SnapshotDownload string string
  | OmegaConfLoad pure_path
  | CudaProbe
  | MpsProbe
  | AgentNew
  | AgentTo device
  | AgentEval
  | AgentLoad pure_path
  | WorldModelEnvNew wm_env_obj
  | TorchCompile string string
  | PlayEnvNew
  | HydraCompose string
  | GameNew
  | GameRun

text \<open>A computation: the effects in order, then the exception raised or the value.\<close>

type_synonym 'a io = "event list \<times> (error + 'a)"

definition ret :: "'a \<Rightarrow> 'a io" where
  "ret x = ([], Inr x)"

definition raise :: "error \<Rightarrow> 'a io" where
  "raise e = ([], Inl e)"

definition emit :: "event \<Rightarrow> unit io" where
  "emit ev = ([ev], Inr ())"

definition bnd :: "'a io \<Rightarrow> ('a \<Rightarrow> 'b io) \<Rightarrow> 'b io" where
  "bnd m f =
     (case snd m of
        Inl e \<Rightarrow> (fst m, Inl e)
      | Inr x \<Rightarrow> (fst m @ fst (f x), snd (f x)))"

definition call :: "event \<Rightarrow> error \<Rightarrow> 'a option \<Rightarrow> 'a io" where
  "call ev e r = ([ev], case r of None \<Rightarrow> Inl e | Some x \<Rightarrow> Inr x)"

section \<open>The external calls\<close>

definition py_input :: "world \<Rightarrow> string \<Rightarrow> string io" where
  "py_input wld prompt = ([Input prompt], Inr (stdin_line wld))"

definition py_print :: "string \<Rightarrow> unit io" where
  "py_print s = emit (Print s)"

definition snapshot_download :: "world \<Rightarrow> string \<Rightarrow> string \<Rightarrow> string io" where
  "snapshot_download wld repo_id allow_patterns =
     call (SnapshotDownload repo_id allow_patterns) RetrievalError
       (hub_snapshot wld repo_id allow_patterns)"

definition OmegaConf_load_agent :: "world \<Rightarrow> pure_path \<Rightarrow> agent_cfg io" where
  "OmegaConf_load_agent wld p = call (OmegaConfLoad p) FileNotFoundError (yaml_agent wld p)"

definition OmegaConf_load_env :: "world \<Rightarrow> pure_path \<Rightarrow> env_cfg io" where
  "OmegaConf_load_env wld p = call (OmegaConfLoad p) FileNotFoundError (yaml_env wld p)"

definition Agent_new :: "world \<Rightarrow> agent_cfg \<Rightarrow> int \<Rightarrow> agent_obj io" where
  "Agent_new wld c n = call AgentNew InstantiationError (new_agent wld c n)"

definition Agent_load :: "world \<Rightarrow> agent_obj \<Rightarrow> pure_path \<Rightarrow> agent_obj io" where
  "Agent_load wld ag p =
     call (AgentLoad p) CheckpointError
       (if ckpt_readable wld p then Some (ag\<lparr>ag_ckpt := Some p\<rparr>) else None)"

definition compose :: "world \<Rightarrow> string \<Rightarrow> cfg io" where
  "compose wld config_name =
     call (HydraCompose config_name) FileNotFoundError (hydra_compose wld config_name)"

text \<open>\<^verbatim>\<open>v / s\<close> for any value \<^verbatim>\<open>v\<close>: only a path has the operator.\<close>

definition py_truediv :: "py_value \<Rightarrow> string \<Rightarrow> pure_path io" where
  "py_truediv v s = (case v of PyPath p \<Rightarrow> ret (truediv p s) | _ \<Rightarrow> raise TypeError)"

section \<open>The functions of play.py\<close>

text \<open>
  \<^verbatim>\<open>parse_args\<close> (lines 20--36): the flags are \<^verbatim>\<open>store_true\<close>, the integer options have
  defaults 10, 2 and 15, and \<^verbatim>\<open>--model\<close> has \<^verbatim>\<open>type=Path\<close> and no default, so it is
  \<^verbatim>\<open>None\<close> when absent and \<^verbatim>\<open>Path(s)\<close> for every string \<^verbatim>\<open>s\<close> given.
\<close>

definition parse_args :: "cli \<Rightarrow> args" where
  "parse_args c =
     \<lparr>record_flag = cli_record c,
      store_denoising_trajectory = cli_store_denoising_trajectory c,
      store_original_obs = cli_store_original_obs c,
      mouse_multiplier = (case cli_mouse_multiplier c of None \<Rightarrow> 10 | Some n \<Rightarrow> n),
      size_multiplier = (case cli_size_multiplier c of None \<Rightarrow> 2 | Some n \<Rightarrow> n),
      compile = cli_compile c,
      colab = cli_colab c,
      fps = (case cli_fps c of None \<Rightarrow> 15 | Some n \<Rightarrow> n),
      no_header = cli_no_header c,
      model = (case cli_model c of None \<Rightarrow> PyNone | Some s \<Rightarrow> PyPath (Path s))\<rparr>"

text \<open>\<^verbatim>\<open>check_args\<close> (lines 39--42).\<close>

definition check_args :: "args \<Rightarrow> bool io" where
  "check_args a =
     bnd (if \<not> record_flag a \<and> (store_denoising_trajectory a \<or> store_original_obs a)
          then py_print ''Warning: not in recording mode, ignoring --store* options''
          else ret ())
       (\<lambda>_. ret True)"

text \<open>
  \<^verbatim>\<open>prepare_play_mode\<close>, lines 47--59: the prompt, the bundle root (downloaded, or the
  override), the two paths below it and the two configuration documents that replace
  \<^verbatim>\<open>cfg.agent\<close> and \<^verbatim>\<open>cfg.env\<close>. The value is what the rest of the function uses:
  the model name, \<^verbatim>\<open>path_ckpt\<close>, \<^verbatim>\<open>spawn_dir\<close> and the overridden \<^verbatim>\<open>cfg\<close>.
\<close>

definition load_model_config ::
  "world \<Rightarrow> cfg \<Rightarrow> args \<Rightarrow> (string \<times> pure_path \<times> pure_path \<times> cfg) io" where
  "load_model_config wld c a =
     bnd (py_input wld ''Model name: '') (\<lambda>model_name.
     bnd (if model a = PyStr [] \<or> model a = PyNone
          then bnd (snapshot_download wld ''DereWah/diamond-mariokart64'' (model_name @ ''/*''))
                 (\<lambda>d. ret (PyPath (Path d)))
          else ret (model a)) (\<lambda>path_hf.
     bnd (py_truediv path_hf (model_name @ ''/model/'' @ model_name @ ''.pt'')) (\<lambda>path_ckpt.
     bnd (py_truediv path_hf (model_name @ ''/spawn'')) (\<lambda>spawn_dir.
     bnd (py_truediv path_hf (model_name @ ''/config/agent/'' @ model_name @ ''.yaml''))
       (\<lambda>agent_yaml.
     bnd (OmegaConf_load_agent wld agent_yaml) (\<lambda>cfg_agent.
     bnd (py_truediv path_hf (model_name @ ''/config/env/'' @ model_name @ ''.yaml''))
       (\<lambda>env_yaml.
     bnd (OmegaConf_load_env wld env_yaml) (\<lambda>cfg_env.
     ret (model_name, path_ckpt, spawn_dir, c\<lparr>agent := cfg_agent, env := cfg_env\<rparr>)))))))))"

text \<open>Lines 61--66: the two probes, in this order, and the device.\<close>

definition select_device :: "world \<Rightarrow> device io" where
  "select_device wld =
     bnd (emit CudaProbe) (\<lambda>_.
     if cuda_is_available wld then ret (Cuda 0)
     else bnd (emit MpsProbe) (\<lambda>_.
          if mps_is_available wld then ret Mps else ret Cpu))"

text \<open>
  Lines 68--95: the assertion on the training identifier, the agent (built, moved to the
  device, put in evaluation mode, loaded from the checkpoint), the context length, the
  world model environment, the optional compilation and the play environment.
\<close>

definition build_play_env ::
  "world \<Rightarrow> args \<Rightarrow> string \<Rightarrow> pure_path \<Rightarrow> pure_path \<Rightarrow> cfg \<Rightarrow> device \<Rightarrow> play_env io" where
  "build_play_env wld a model_name path_ckpt spawn_dir c dev =
     bnd (if train_id (train (env c)) = PyStr model_name then ret () else raise AssertionError)
       (\<lambda>_.
     bnd (Agent_new wld (agent c) (num_actions (env c))) (\<lambda>ag0.
     bnd (emit (AgentTo dev)) (\<lambda>_.
     bnd (emit AgentEval) (\<lambda>_.
     bnd (Agent_load wld (ag0\<lparr>ag_device := Some dev, ag_training := False\<rparr>) path_ckpt) (\<lambda>ag.
     bnd (if ag_upsampler ag \<noteq> None
          then (case upsampler (agent c) of
                  None \<Rightarrow> raise AttributeError
                | Some u \<Rightarrow>
                    ret (max (num_steps_conditioning (inner_model (denoiser (agent c))))
                             (num_steps_conditioning (inner_model u))))
          else ret (num_steps_conditioning (inner_model (denoiser (agent c))))) (\<lambda>sl.
     bnd (ret \<lparr>wm_denoiser = ag_denoiser ag,
               wm_upsampler = ag_upsampler ag,
               wm_rew_end_model = ag_rew_end_model ag,
               wm_spawn_dir = spawn_dir,
               wm_num_envs = 1,
               wm_seq_length = sl,
               wm_cfg = \<lparr>wm_source = world_model_env c, num_batches_to_preload = 1\<rparr>,
               return_denoising_trajectory = True,
               predict_next_obs = Method ''predict_next_obs'',
               upsample_next_obs = Method ''upsample_next_obs''\<rparr>) (\<lambda>wm0.
     bnd (emit (WorldModelEnvNew wm0)) (\<lambda>_.
     bnd (if device_type dev = ''cuda'' \<and> compile a
          then bnd (py_print ''Compiling models...'') (\<lambda>_.
               bnd (emit (TorchCompile ''predict_next_obs'' ''reduce-overhead'')) (\<lambda>_.
               bnd (emit (TorchCompile ''upsample_next_obs'' ''reduce-overhead'')) (\<lambda>_.
               ret (wm0\<lparr>predict_next_obs := Compiled (predict_next_obs wm0) ''reduce-overhead'',
                         upsample_next_obs :=
                           Compiled (upsample_next_obs wm0) ''reduce-overhead''\<rparr>))))
          else ret wm0) (\<lambda>wm_env.
     bnd (emit PlayEnvNew) (\<lambda>_.
     ret \<lparr>pe_agent = ag,
          pe_wm_env = wm_env,
          pe_record_mode = record_flag a,
          pe_store_denoising_trajectory = store_denoising_trajectory a,
          pe_store_original_obs = store_original_obs a\<rparr>))))))))))"

text \<open>\<^verbatim>\<open>prepare_play_mode\<close> (lines 45--95), the three parts in sequence.\<close>

definition prepare_play_mode :: "world \<Rightarrow> cfg \<Rightarrow> args \<Rightarrow> play_env io" where
  "prepare_play_mode wld c a =
     bnd (load_model_config wld c a) (\<lambda>(model_name, path_ckpt, spawn_dir, c').
     bnd (select_device wld) (\<lambda>dev.
     build_play_env wld a model_name path_ckpt spawn_dir c' dev))"

text \<open>
  Lines 109--110 of \<^verbatim>\<open>main\<close>: an integer is doubled into a pair, a sequence is
  unpacked into \<^verbatim>\<open>w, h\<close> (which needs exactly two elements), and the pair given to the
  game is \<^verbatim>\<open>(h * m, w * m)\<close>.
\<close>

definition window_size :: "size_cfg \<Rightarrow> int \<Rightarrow> (int \<times> int) io" where
  "window_size sz m =
     bnd (case sz of
            SizeInt n \<Rightarrow> ret (n, n)
          | SizeSeq xs \<Rightarrow> (case xs of [x, y] \<Rightarrow> ret (x, y) | _ \<Rightarrow> raise ValueError))
       (\<lambda>(w, h). ret (h * m, w * m))"

datatype main_result = ReturnedEarly | Played (the_game: game)

text \<open>
  \<^verbatim>\<open>main\<close>, lines 105--114: what runs once the guard of lines 102--103 has been passed:
  the base configuration, the window size, \<^verbatim>\<open>prepare_play_mode\<close> and the game.
\<close>

definition start_session :: "world \<Rightarrow> args \<Rightarrow> main_result io" where
  "start_session wld a =
     bnd (compose wld ''trainer'') (\<lambda>c.
     bnd (emit PrintCfg) (\<lambda>_.
     bnd (window_size (train_size (train (env c))) (size_multiplier a)) (\<lambda>(size_h, size_w).
     bnd (prepare_play_mode wld c a) (\<lambda>penv.
     bnd (emit GameNew) (\<lambda>_.
     bnd (emit GameRun) (\<lambda>_.
     ret (Played \<lparr>g_env = penv,
                  g_size = (size_h, size_w),
                  g_mouse_multiplier = mouse_multiplier a,
                  g_fps = fps a,
                  g_verbose = (\<not> no_header a),
                  g_use_colab = colab a\<rparr>)))))))"

text \<open>\<^verbatim>\<open>main\<close> (lines 99--114).\<close>

definition main :: "world \<Rightarrow> cli \<Rightarrow> main_result io" where
  "main wld argv =
     bnd (ret (parse_args argv)) (\<lambda>a.
     bnd (check_args a) (\<lambda>ok.
     if \<not> ok then ret ReturnedEarly else start_session wld a))"

section \<open>Observations on a run\<close>

text \<open>The effects that move a model to a device, and those that contact the registry.\<close>

fun is_placement :: "event \<Rightarrow> bool" where
  "is_placement (AgentTo _) = True"
| "is_placement _ = False"

fun is_download :: "event \<Rightarrow> bool" where
  "is_download (SnapshotDownload _ _) = True"
| "is_download _ = False"

text \<open>The world model environments constructed during a run, as they were constructed.\<close>

fun wm_envs_built :: "event list \<Rightarrow> wm_env_obj list" where
  "wm_envs_built [] = []"
| "wm_envs_built (WorldModelEnvNew e # t) = e # wm_envs_built t"
| "wm_envs_built (_ # t) = wm_envs_built t"

text \<open>\<^verbatim>\<open>path_ckpt\<close> and \<^verbatim>\<open>spawn_dir\<close> of lines 54--55, when the run gets past line 59.\<close>

definition derived_paths ::
  "(string \<times> pure_path \<times> pure_path \<times> cfg) io \<Rightarrow> (pure_path \<times> pure_path) option" where
  "derived_paths r =
     (case snd r of Inl e \<Rightarrow> None | Inr (n, ck, sp, c') \<Rightarrow> Some (ck, sp))"

text \<open>
  The specification writes the files of a bundle as \<^verbatim>\<open><override>/m/model/m.pt\<close> and
  \<^verbatim>\<open><override>/m/spawn\<close>: the file named by the text after the first slash, inside the
  directory before it. \<open>spec_path d rel\<close> is that path: the root and the components of
  \<open>d\<close>, followed by the components named in \<open>rel\<close>.
\<close>

definition spec_path :: "pure_path \<Rightarrow> string \<Rightarrow> pure_path" where
  "spec_path d rel = \<lparr>p_root = p_root d, p_parts = p_parts d @ components rel\<rparr>"

section \<open>An example session\<close>

text \<open>
  A bundle whose agent configuration declares conditioning lengths 4 (denoiser) and 6
  (upsampler), an agent with an upsampler, a base configuration whose window size is the
  pair \<open>[64, 128]\<close>, and the command line
  \<^verbatim>\<open>--store-denoising-trajectory --compile --model /models\<close>. The world is given the line
  typed at the prompt, the identifier that the bundle's environment configuration
  declares, and the answers of the two device probes.
\<close>

definition example_agent_cfg :: agent_cfg where
  "example_agent_cfg =
     \<lparr>denoiser = \<lparr>inner_model = \<lparr>num_steps_conditioning = 4\<rparr>\<rparr>,
      upsampler = Some \<lparr>inner_model = \<lparr>num_steps_conditioning = 6\<rparr>\<rparr>\<rparr>"

definition example_env_cfg :: "string \<Rightarrow> env_cfg" where
  "example_env_cfg declared =
     \<lparr>train = \<lparr>train_id = PyStr declared, train_size = SizeSeq [64, 128]\<rparr>, num_actions = 5\<rparr>"

definition example_agent :: agent_obj where
  "example_agent =
     \<lparr>ag_denoiser = ''denoiser'', ag_upsampler = Some ''upsampler'',
      ag_rew_end_model = Some ''rew_end_model'', ag_device = None, ag_training = True,
      ag_ckpt = None\<rparr>"

definition example_cfg :: cfg where
  "example_cfg =
     \<lparr>agent = example_agent_cfg, env = example_env_cfg ''base'', world_model_env = ''wm''\<rparr>"

definition example_world :: "string \<Rightarrow> string \<Rightarrow> bool \<Rightarrow> bool \<Rightarrow> world" where
  "example_world typed declared cuda mps =
     \<lparr>stdin_line = typed,
      hub_snapshot = (\<lambda>repo_id allow_patterns. Some ''/cache/snapshot''),
      yaml_agent = (\<lambda>p. Some example_agent_cfg),
      yaml_env = (\<lambda>p. Some (example_env_cfg declared)),
      cuda_is_available = cuda,
      mps_is_available = mps,
      new_agent = (\<lambda>c n. Some example_agent),
      ckpt_readable = (\<lambda>p. True),
      hydra_compose = (\<lambda>config_name. Some example_cfg)\<rparr>"

definition example_cli :: cli where
  "example_cli =
     \<lparr>cli_record = False, cli_store_denoising_trajectory = True,
      cli_store_original_obs = False, cli_mouse_multiplier = None,
      cli_size_multiplier = None, cli_compile = True, cli_colab = False, cli_fps = None,
      cli_no_header = False, cli_model = Some ''/models''\<rparr>"

text \<open>
  What \<^verbatim>\<open>prepare_play_mode\<close> returns in the example when the model name typed is
  \<^verbatim>\<open>track-a\<close>, on the device \<open>dev\<close>.
\<close>

definition example_play_env :: "device \<Rightarrow> play_env" where
  "example_play_env dev =
     \<lparr>pe_agent =
        \<lparr>ag_denoiser = ''denoiser'', ag_upsampler = Some ''upsampler'',
         ag_rew_end_model = Some ''rew_end_model'', ag_device = Some dev,
         ag_training = False,
         ag_ckpt = Some \<lparr>p_root = ''/'',
                          p_parts = [''models'', ''track-a'', ''model'', ''track-a.pt'']\<rparr>\<rparr>,
      pe_wm_env =
        \<lparr>wm_denoiser = ''denoiser'', wm_upsampler = Some ''upsampler'',
         wm_rew_end_model = Some ''rew_end_model'',
         wm_spawn_dir = \<lparr>p_root = ''/'', p_parts = [''models'', ''track-a'', ''spawn'']\<rparr>,
         wm_num_envs = 1, wm_seq_length = 6,
         wm_cfg = \<lparr>wm_source = ''wm'', num_batches_to_preload = 1\<rparr>,
         return_denoising_trajectory = True,
         predict_next_obs =
           (if device_type dev = ''cuda''
            then Compiled (Method ''predict_next_obs'') ''reduce-overhead''
            else Method ''predict_next_obs''),
         upsample_next_obs =
           (if device_type dev = ''cuda''
            then Compiled (Method ''upsample_next_obs'') ''reduce-overhead''
            else Method ''upsample_next_obs'')\<rparr>,
      pe_record_mode = False, pe_store_denoising_trajectory = True,
      pe_store_original_obs = False\<rparr>"

text \<open>The game that \<^verbatim>\<open>main\<close> starts in the example, with no accelerator but MPS.\<close>

definition example_game :: game where
  "example_game =
     \<lparr>g_env = example_play_env Mps, g_size = (256, 128), g_mouse_multiplier = 10,
      g_fps = 15, g_verbose = True, g_use_colab = False\<rparr>"

section \<open>Sequencing of effects\<close>

lemmas io_defs = bnd_def ret_def raise_def emit_def call_def py_print_def

lemma bnd_ret [simp]: "bnd (ret x) f = f x"
  by (simp add: bnd_def ret_def)

lemma bnd_raise [simp]: "bnd (raise e) f = raise e"
  by (simp add: bnd_def raise_def)

lemma bnd_emit [simp]: "bnd (emit ev) f = (ev # fst (f ()), snd (f ()))"
  by (simp add: bnd_def emit_def)

lemma fst_ret [simp]: "fst (ret x) = []"
  by (simp add: ret_def)

lemma snd_ret [simp]: "snd (ret x) = Inr x"
  by (simp add: ret_def)

lemma snd_bnd_Inr:
  "snd (bnd m f) = Inr y \<longleftrightarrow> (\<exists>x. snd m = Inr x \<and> snd (f x) = Inr y)"
  by (cases "snd m") (simp_all add: bnd_def)

lemma fst_bnd:
  "fst (bnd m f) = fst m @ (case snd m of Inl e \<Rightarrow> [] | Inr x \<Rightarrow> fst (f x))"
  by (cases "snd m") (simp_all add: bnd_def)

section \<open>Paths\<close>

lemma is_abs_append: "m \<noteq> [] \<Longrightarrow> is_abs (m @ s) = (hd m = CHR ''/'')"
  by (cases m) (simp_all add: is_abs_def)

lemma truediv_relative:
  "m \<noteq> [] \<Longrightarrow> hd m \<noteq> CHR ''/'' \<Longrightarrow> truediv p (m @ s) = spec_path p (m @ s)"
  by (simp add: truediv_def spec_path_def is_abs_append)

lemma split_sep_not_Nil [simp]: "split_sep s \<noteq> []"
  by (induction s) (auto split: list.splits)

lemma split_sep_append:
  "split_sep (a @ CHR ''/'' # b) = split_sep a @ split_sep b"
  by (induction a) (auto split: list.splits)

lemma split_sep_plain: "CHR ''/'' \<notin> set s \<Longrightarrow> split_sep s = [s]"
  by (induction s) auto

lemma components_append:
  "components (a @ CHR ''/'' # b) = components a @ components b"
  by (simp add: components_def split_sep_append)

lemma components_plain:
  "CHR ''/'' \<notin> set s \<Longrightarrow> components s = (if s = [] \<or> s = ''.'' then [] else [s])"
  by (simp add: components_def split_sep_plain)

text \<open>The text \<^verbatim>\<open>m/model/m.pt\<close> names three components when \<^verbatim>\<open>m\<close> is a plain name.\<close>

lemma components_ckpt:
  assumes "CHR ''/'' \<notin> set m" "m \<noteq> []" "m \<noteq> ''.''"
  shows "components (m @ ''/model/'' @ m @ ''.pt'') = [m, ''model'', m @ ''.pt'']"
proof -
  have "components (m @ ''/model/'' @ m @ ''.pt'') =
        components m @ components (''model'' @ CHR ''/'' # (m @ ''.pt''))"
    using components_append [of m "''model/'' @ m @ ''.pt''"] by simp
  also have "\<dots> = components m @ components ''model'' @ components (m @ ''.pt'')"
    by (simp only: components_append)
  finally show ?thesis
    using assms by (simp add: components_plain)
qed

lemma components_spawn:
  assumes "CHR ''/'' \<notin> set m" "m \<noteq> []" "m \<noteq> ''.''"
  shows "components (m @ ''/spawn'') = [m, ''spawn'']"
proof -
  have "components (m @ ''/spawn'') = components m @ components ''spawn''"
    using components_append [of m "''spawn''"] by simp
  then show ?thesis
    using assms by (simp add: components_plain)
qed

section \<open>The parts of a session\<close>

subsection \<open>Options\<close>

lemma check_args_eq:
  "check_args a =
     (if \<not> record_flag a \<and> (store_denoising_trajectory a \<or> store_original_obs a)
      then ([Print ''Warning: not in recording mode, ignoring --store* options''], Inr True)
      else ([], Inr True))"
  by (simp add: check_args_def py_print_def ret_def bnd_def emit_def)

lemma parse_args_record:
  "parse_args (argv\<lparr>cli_record := b\<rparr>) = (parse_args argv)\<lparr>record_flag := b\<rparr>"
  by (simp add: parse_args_def)

subsection \<open>Lines 47--59\<close>

lemmas load_defs =
  load_model_config_def py_input_def snapshot_download_def py_truediv_def
  OmegaConf_load_agent_def OmegaConf_load_env_def io_defs

lemma load_model_config_args:
  "load_model_config wld c (a\<lparr>compile := b\<rparr>) = load_model_config wld c a"
  "load_model_config wld c (a\<lparr>store_denoising_trajectory := b\<rparr>) = load_model_config wld c a"
  "load_model_config wld c (a\<lparr>record_flag := b\<rparr>) = load_model_config wld c a"
  by (simp_all add: load_model_config_def cong: if_cong)

lemma load_model_config_no_placement:
  "filter is_placement (fst (load_model_config wld c a)) = []"
  by (auto simp: load_defs split: option.splits sum.splits py_value.splits)

lemma load_model_config_wm_envs: "wm_envs_built (fst (load_model_config wld c a)) = []"
  by (auto simp: load_defs split: option.splits sum.splits py_value.splits)

lemma load_model_config_name:
  "snd (load_model_config wld c a) = Inr (n, ck, sp, c') \<Longrightarrow> n = stdin_line wld"
  by (auto simp: load_defs split: option.splits sum.splits py_value.splits if_splits)

lemma load_model_config_override:
  assumes "model a = PyPath ov"
  shows "filter is_download (fst (load_model_config wld c a)) = []"
  using assms by (auto simp: load_defs split: option.splits sum.splits)

lemma load_model_config_override_paths:
  assumes "model a = PyPath ov"
    and "snd (load_model_config wld c a) = Inr (n, ck, sp, c')"
  shows "ck = truediv ov (stdin_line wld @ ''/model/'' @ stdin_line wld @ ''.pt'')"
    and "sp = truediv ov (stdin_line wld @ ''/spawn'')"
  using assms by (auto simp: load_defs split: option.splits sum.splits)

text \<open>
  A namespace whose \<^verbatim>\<open>model\<close> is \<^verbatim>\<open>None\<close> or the string \<^verbatim>\<open>""\<close> goes to the registry:
  this is the comparison of line 49.
\<close>

lemma load_model_config_remote:
  assumes "model a = PyNone \<or> model a = PyStr []"
  shows "filter is_download (fst (load_model_config wld c a)) =
           [SnapshotDownload ''DereWah/diamond-mariokart64'' (stdin_line wld @ ''/*'')]"
  using assms by (auto simp: load_defs split: option.splits sum.splits)

lemma derived_paths_override:
  assumes "model a = PyPath ov"
  shows "derived_paths (load_model_config wld c a) = None \<or>
         derived_paths (load_model_config wld c a) =
           Some (truediv ov (stdin_line wld @ ''/model/'' @ stdin_line wld @ ''.pt''),
                 truediv ov (stdin_line wld @ ''/spawn''))"
proof (cases "snd (load_model_config wld c a)")
  case (Inl e)
  then show ?thesis by (simp add: derived_paths_def)
next
  case (Inr r)
  obtain n ck sp c' where r: "r = (n, ck, sp, c')"
    by (cases r) auto
  show ?thesis
    using load_model_config_override_paths [OF assms Inr [unfolded r]] Inr r
    by (simp add: derived_paths_def)
qed

subsection \<open>Lines 61--66\<close>

lemma select_device_eq:
  "select_device wld =
     (if cuda_is_available wld then ([CudaProbe], Inr (Cuda 0))
      else if mps_is_available wld then ([CudaProbe, MpsProbe], Inr Mps)
      else ([CudaProbe, MpsProbe], Inr Cpu))"
  by (simp add: select_device_def)

lemma snd_select_device:
  "snd (select_device wld) =
     Inr (if cuda_is_available wld then Cuda 0 else if mps_is_available wld then Mps else Cpu)"
  by (simp add: select_device_eq)

lemma select_device_no_download: "filter is_download (fst (select_device wld)) = []"
  by (simp add: select_device_eq)

lemma select_device_no_placement: "filter is_placement (fst (select_device wld)) = []"
  by (simp add: select_device_eq)

lemma select_device_wm_envs: "wm_envs_built (fst (select_device wld)) = []"
  by (simp add: select_device_eq)

subsection \<open>Lines 68--95\<close>

lemmas build_defs = build_play_env_def Agent_new_def Agent_load_def io_defs

lemma build_play_env_mismatch:
  "train_id (train (env c)) \<noteq> PyStr n \<Longrightarrow>
   build_play_env wld a n ck sp c dev = ([], Inl AssertionError)"
  by (simp add: build_play_env_def bnd_def raise_def)

lemma build_play_env_Inr:
  assumes "snd (build_play_env wld a n ck sp c dev) = Inr pe"
  shows "ag_device (pe_agent pe) = Some dev"
    and "return_denoising_trajectory (pe_wm_env pe)"
    and "pe_store_denoising_trajectory pe = store_denoising_trajectory a"
  using assms
  by (auto simp: build_defs split: option.splits sum.splits if_splits)

lemma build_play_env_seq_length:
  assumes "snd (build_play_env wld a n ck sp c dev) = Inr pe"
  shows "(ag_upsampler (pe_agent pe) = None \<and>
          wm_seq_length (pe_wm_env pe) = num_steps_conditioning (inner_model (denoiser (agent c)))) \<or>
         (\<exists>u. ag_upsampler (pe_agent pe) \<noteq> None \<and> upsampler (agent c) = Some u \<and>
          wm_seq_length (pe_wm_env pe) =
            max (num_steps_conditioning (inner_model (denoiser (agent c))))
                (num_steps_conditioning (inner_model u)))"
  using assms
  by (auto simp: build_defs split: option.splits sum.splits if_splits)

lemma build_play_env_call_paths:
  assumes "snd (build_play_env wld a n ck sp c dev) = Inr pe"
  shows "predict_next_obs (pe_wm_env pe) =
           (if compile a \<and> device_type dev = ''cuda''
            then Compiled (Method ''predict_next_obs'') ''reduce-overhead''
            else Method ''predict_next_obs'')"
    and "upsample_next_obs (pe_wm_env pe) =
           (if compile a \<and> device_type dev = ''cuda''
            then Compiled (Method ''upsample_next_obs'') ''reduce-overhead''
            else Method ''upsample_next_obs'')"
  using assms
  by (auto simp: build_defs split: option.splits sum.splits if_splits)

lemma build_play_env_no_compile:
  "device_type dev \<noteq> ''cuda'' \<Longrightarrow>
   build_play_env wld (a\<lparr>compile := b\<rparr>) n ck sp c dev = build_play_env wld a n ck sp c dev"
  by (simp add: build_play_env_def)

lemma build_play_env_no_download:
  "filter is_download (fst (build_play_env wld a n ck sp c dev)) = []"
  by (auto simp: build_defs split: option.splits sum.splits if_splits)

lemma build_play_env_wm_envs:
  "list_all return_denoising_trajectory
     (wm_envs_built (fst (build_play_env wld a n ck sp c dev)))"
  by (auto simp: build_defs split: option.splits sum.splits if_splits)

lemma build_play_env_store_flag:
  "build_play_env wld (a\<lparr>store_denoising_trajectory := b\<rparr>) n ck sp c dev =
     (fst (build_play_env wld a n ck sp c dev),
      map_sum id (\<lambda>pe. pe\<lparr>pe_store_denoising_trajectory := b\<rparr>)
        (snd (build_play_env wld a n ck sp c dev)))"
  by (auto simp: build_defs split: option.splits sum.splits if_splits)

lemma build_play_env_record_flag:
  "build_play_env wld (a\<lparr>record_flag := b\<rparr>) n ck sp c dev =
     (fst (build_play_env wld a n ck sp c dev),
      map_sum id (\<lambda>pe. pe\<lparr>pe_record_mode := b\<rparr>)
        (snd (build_play_env wld a n ck sp c dev)))"
  by (auto simp: build_defs split: option.splits sum.splits if_splits)

subsection \<open>\<^verbatim>\<open>prepare_play_mode\<close> and \<^verbatim>\<open>main\<close>\<close>

lemma prepare_play_mode_Inr:
  "snd (prepare_play_mode wld c a) = Inr pe \<longleftrightarrow>
     (\<exists>n ck sp c' dev. snd (load_model_config wld c a) = Inr (n, ck, sp, c') \<and>
        snd (select_device wld) = Inr dev \<and>
        snd (build_play_env wld a n ck sp c' dev) = Inr pe)"
  by (auto simp: prepare_play_mode_def snd_bnd_Inr)

lemma prepare_play_mode_downloads:
  "filter is_download (fst (prepare_play_mode wld c a)) =
   filter is_download (fst (load_model_config wld c a))"
  by (auto simp: prepare_play_mode_def fst_bnd build_play_env_no_download
      select_device_no_download split: sum.splits prod.splits)

lemma wm_envs_built_append: "wm_envs_built (s @ t) = wm_envs_built s @ wm_envs_built t"
  by (induction s rule: wm_envs_built.induct) simp_all

lemma prepare_play_mode_wm_envs:
  "list_all return_denoising_trajectory (wm_envs_built (fst (prepare_play_mode wld c a)))"
  by (auto simp: prepare_play_mode_def fst_bnd wm_envs_built_append load_model_config_wm_envs
      select_device_wm_envs build_play_env_wm_envs split: sum.splits prod.splits)

lemma prepare_play_mode_store_flag:
  "prepare_play_mode wld c (a\<lparr>store_denoising_trajectory := b\<rparr>) =
     (fst (prepare_play_mode wld c a),
      map_sum id (\<lambda>pe. pe\<lparr>pe_store_denoising_trajectory := b\<rparr>)
        (snd (prepare_play_mode wld c a)))"
  unfolding prepare_play_mode_def load_model_config_args
  by (auto simp: bnd_def build_play_env_store_flag split: sum.splits prod.splits)

lemma prepare_play_mode_record_flag:
  "prepare_play_mode wld c (a\<lparr>record_flag := b\<rparr>) =
     (fst (prepare_play_mode wld c a),
      map_sum id (\<lambda>pe. pe\<lparr>pe_record_mode := b\<rparr>) (snd (prepare_play_mode wld c a)))"
  unfolding prepare_play_mode_def load_model_config_args
  by (auto simp: bnd_def build_play_env_record_flag split: sum.splits prod.splits)

lemma main_eq:
  "main wld argv =
     (fst (check_args (parse_args argv)) @ fst (start_session wld (parse_args argv)),
      snd (start_session wld (parse_args argv)))"
  by (simp add: main_def check_args_eq bnd_def ret_def)

lemma start_session_Played:
  assumes "snd (start_session wld a) = Inr r"
  shows "\<exists>c g. r = Played g \<and> hydra_compose wld ''trainer'' = Some c \<and>
           snd (window_size (train_size (train (env c))) (size_multiplier a)) = Inr (g_size g) \<and>
           snd (prepare_play_mode wld c a) = Inr (g_env g)"
  using assms
  by (auto simp: start_session_def compose_def call_def bnd_def ret_def emit_def
      split: option.splits sum.splits prod.splits if_splits)

lemma main_not_early: "snd (main wld argv) \<noteq> Inr ReturnedEarly"
  using start_session_Played [of wld "parse_args argv" ReturnedEarly]
  by (auto simp: main_eq)

lemma main_Played:
  assumes "snd (main wld argv) = Inr (Played g)"
  shows "\<exists>c. hydra_compose wld ''trainer'' = Some c \<and>
           snd (window_size (train_size (train (env c))) (size_multiplier (parse_args argv))) =
             Inr (g_size g)"
  using start_session_Played [of wld "parse_args argv" "Played g"] assms
  by (auto simp: main_eq)

lemma start_session_record_flag:
  "fst (start_session wld (a\<lparr>record_flag := b\<rparr>)) = fst (start_session wld a)"
  "isl (snd (start_session wld (a\<lparr>record_flag := b\<rparr>))) = isl (snd (start_session wld a))"
  by (auto simp: start_session_def prepare_play_mode_record_flag compose_def call_def bnd_def
      ret_def emit_def split: option.splits sum.splits prod.splits)

lemma start_session_begins:
  "take 1 (fst (start_session wld a)) = [HydraCompose ''trainer'']"
  by (simp add: start_session_def compose_def call_def bnd_def split: option.splits)

section \<open>The example session, evaluated\<close>

lemmas example_defs =
  example_agent_cfg_def example_env_cfg_def example_agent_def example_cfg_def
  example_world_def example_cli_def example_play_env_def

lemmas run_defs =
  main_def start_session_def prepare_play_mode_def load_model_config_def select_device_def
  build_play_env_def check_args_def parse_args_def window_size_def py_input_def
  snapshot_download_def OmegaConf_load_agent_def OmegaConf_load_env_def Agent_new_def
  Agent_load_def compose_def py_truediv_def truediv_def Path_def splitroot_def
  components_def is_abs_def io_defs

lemma example_args:
  "model (parse_args example_cli) = PyPath \<lparr>p_root = ''/'', p_parts = [''models'']\<rparr>"
  "model (parse_args (example_cli\<lparr>cli_model := None\<rparr>)) = PyNone"
  "compile (parse_args example_cli)"
  "store_denoising_trajectory (parse_args example_cli)"
  "size_multiplier (parse_args example_cli) = 2"
  by (simp_all add: parse_args_def example_cli_def Path_def splitroot_def components_def)

lemma example_world_sel:
  "stdin_line (example_world typed declared cuda mps) = typed"
  "cuda_is_available (example_world typed declared cuda mps) = cuda"
  "mps_is_available (example_world typed declared cuda mps) = mps"
  "hydra_compose (example_world typed declared cuda mps) n = Some example_cfg"
  by (simp_all add: example_world_def)

lemma example_load:
  "snd (load_model_config (example_world ''track-a'' declared cuda mps) example_cfg
          (parse_args example_cli)) =
     Inr (''track-a'',
          \<lparr>p_root = ''/'', p_parts = [''models'', ''track-a'', ''model'', ''track-a.pt'']\<rparr>,
          \<lparr>p_root = ''/'', p_parts = [''models'', ''track-a'', ''spawn'']\<rparr>,
          example_cfg\<lparr>agent := example_agent_cfg, env := example_env_cfg declared\<rparr>)"
  by (simp add: run_defs example_defs)

lemma example_prepare_mps:
  "snd (prepare_play_mode (example_world ''track-a'' ''track-a'' False True) example_cfg
          (parse_args example_cli)) = Inr (example_play_env Mps)"
  by (simp add: run_defs example_defs)

lemma example_prepare_cuda:
  "snd (prepare_play_mode (example_world ''track-a'' ''track-a'' True False) example_cfg
          (parse_args example_cli)) = Inr (example_play_env (Cuda 0))"
  by (simp add: run_defs example_defs)

lemma example_main:
  "snd (main (example_world ''track-a'' ''track-a'' False True) example_cli) =
     Inr (Played example_game)"
  by (simp add: run_defs example_defs example_game_def)

section \<open>The claims of the specification\<close>

subsection \<open>C1: a mismatch of the training identifier is fatal\<close>

text \<open>
  C1. When the two configuration documents have been loaded and the environment's
  \<^verbatim>\<open>train.id\<close> is not the string typed at the prompt, \<^verbatim>\<open>prepare_play_mode\<close> raises
  (the \<^verbatim>\<open>assert\<close> of line 68), and the effects up to that point contain no move of a
  model to a device: the assertion stands before \<^verbatim>\<open>Agent(...).to(device)\<close> of line 72.
  (The device has been chosen by then, and nothing has been put on it. An interpreter
  run with \<^verbatim>\<open>-O\<close> drops every \<^verbatim>\<open>assert\<close>; that mode is not modelled.)
\<close>

theorem train_id_mismatch_is_fatal:
  assumes "snd (load_model_config wld c a) = Inr (n, ck, sp, c')"
    and "train_id (train (env c')) \<noteq> PyStr (stdin_line wld)"
  shows "snd (prepare_play_mode wld c a) = Inl AssertionError \<and>
         filter is_placement (fst (prepare_play_mode wld c a)) = []"
proof -
  have n: "n = stdin_line wld"
    using assms(1) by (rule load_model_config_name)
  obtain d where d: "snd (select_device wld) = Inr d"
    by (simp add: snd_select_device)
  have b: "build_play_env wld a n ck sp c' d = ([], Inl AssertionError)"
    using assms(2) n by (simp add: build_play_env_mismatch)
  have "prepare_play_mode wld c a =
        (fst (load_model_config wld c a) @ fst (select_device wld), Inl AssertionError)"
    using assms(1) d b by (simp add: prepare_play_mode_def bnd_def)
  then show ?thesis
    by (simp add: load_model_config_no_placement select_device_no_placement)
qed

theorem train_id_mismatch_is_fatal_witness:
  "snd (load_model_config (example_world ''track-a'' ''track-b'' True False) example_cfg
          (parse_args example_cli)) =
     Inr (''track-a'',
          \<lparr>p_root = ''/'', p_parts = [''models'', ''track-a'', ''model'', ''track-a.pt'']\<rparr>,
          \<lparr>p_root = ''/'', p_parts = [''models'', ''track-a'', ''spawn'']\<rparr>,
          example_cfg\<lparr>agent := example_agent_cfg, env := example_env_cfg ''track-b''\<rparr>) \<and>
   train_id (train (env (example_cfg\<lparr>agent := example_agent_cfg,
                                     env := example_env_cfg ''track-b''\<rparr>))) = PyStr ''track-b'' \<and>
   stdin_line (example_world ''track-a'' ''track-b'' True False) = ''track-a'' \<and>
   snd (prepare_play_mode (example_world ''track-a'' ''track-b'' True False) example_cfg
          (parse_args example_cli)) = Inl AssertionError \<and>
   filter is_placement
     (fst (prepare_play_mode (example_world ''track-a'' ''track-b'' True False) example_cfg
          (parse_args example_cli))) = []"
proof -
  note h1 = example_load [of "''track-b''" True False]
  have h2: "train_id (train (env (example_cfg\<lparr>agent := example_agent_cfg,
                                               env := example_env_cfg ''track-b''\<rparr>))) \<noteq>
            PyStr (stdin_line (example_world ''track-a'' ''track-b'' True False))"
    by (simp add: example_world_sel example_env_cfg_def)
  show ?thesis
    using train_id_mismatch_is_fatal [OF h1 h2] h1
    by (simp add: example_world_sel example_env_cfg_def)
qed

subsection \<open>C2: the context length\<close>

text \<open>
  C2. On every run of \<^verbatim>\<open>prepare_play_mode\<close> that returns, the context length given to
  the world model environment is the denoiser's declared conditioning length when the
  agent has no upsampler, and the larger of the denoiser's and the upsampler's declared
  lengths when it has one (lines 76--78). The lengths are those of the agent
  configuration loaded from the bundle, which has replaced \<^verbatim>\<open>cfg.agent\<close> by then.
\<close>

theorem context_length_is_max:
  assumes "snd (load_model_config wld c a) = Inr (n, ck, sp, c')"
    and "snd (prepare_play_mode wld c a) = Inr pe"
  shows "(ag_upsampler (pe_agent pe) = None \<and>
          wm_seq_length (pe_wm_env pe) =
            num_steps_conditioning (inner_model (denoiser (agent c')))) \<or>
         (\<exists>u. ag_upsampler (pe_agent pe) \<noteq> None \<and> upsampler (agent c') = Some u \<and>
          wm_seq_length (pe_wm_env pe) =
            max (num_steps_conditioning (inner_model (denoiser (agent c'))))
                (num_steps_conditioning (inner_model u)))"
proof -
  from assms(2) obtain n' ck' sp' c'' dev where
    l: "snd (load_model_config wld c a) = Inr (n', ck', sp', c'')" and
    b: "snd (build_play_env wld a n' ck' sp' c'' dev) = Inr pe"
    unfolding prepare_play_mode_Inr by blast
  from l assms(1) have "c'' = c'" by simp
  with build_play_env_seq_length [OF b] show ?thesis by simp
qed

theorem context_length_is_max_witness:
  "snd (load_model_config (example_world ''track-a'' ''track-a'' False True) example_cfg
          (parse_args example_cli)) =
     Inr (''track-a'',
          \<lparr>p_root = ''/'', p_parts = [''models'', ''track-a'', ''model'', ''track-a.pt'']\<rparr>,
          \<lparr>p_root = ''/'', p_parts = [''models'', ''track-a'', ''spawn'']\<rparr>,
          example_cfg\<lparr>agent := example_agent_cfg, env := example_env_cfg ''track-a''\<rparr>) \<and>
   snd (prepare_play_mode (example_world ''track-a'' ''track-a'' False True) example_cfg
          (parse_args example_cli)) = Inr (example_play_env Mps) \<and>
   ag_upsampler (pe_agent (example_play_env Mps)) = Some ''upsampler'' \<and>
   num_steps_conditioning (inner_model (denoiser example_agent_cfg)) = 4 \<and>
   upsampler example_agent_cfg = Some \<lparr>inner_model = \<lparr>num_steps_conditioning = 6\<rparr>\<rparr> \<and>
   wm_seq_length (pe_wm_env (example_play_env Mps)) = max 4 6"
proof -
  note h1 = example_load [of "''track-a''" False True]
  note h2 = example_prepare_mps
  show ?thesis
    using context_length_is_max [OF h1 h2] h1 h2
    by (simp add: example_play_env_def example_agent_cfg_def)
qed

subsection \<open>C3: the window size\<close>

text \<open>
  C3, as the specification states it: a base size given as the pair (64, 128), with
  multiplier 2, yields (128, 256) as the \<^verbatim>\<open>(size_h, size_w)\<close> given to the game. Line 109
  unpacks the pair as \<^verbatim>\<open>w, h\<close> and line 110 builds \<^verbatim>\<open>(h * m, w * m)\<close>, so the code yields
  (256, 128).
\<close>

theorem window_size_pair_counterexample:
  "snd (window_size (SizeSeq [64, 128]) 2) = Inr (256, 128) \<and>
   snd (window_size (SizeSeq [64, 128]) 2) \<noteq> Inr (128, 256)"
  by (simp add: window_size_def bnd_def ret_def)

text \<open>
  C3, amended. The window size is the configured base size times the multiplier; the
  base size is a single integer (a square) or a pair read as (width, height), and the
  game is given (height * m, width * m). Base size 64 with multiplier 3 yields
  (192, 192); base size (64, 128) with multiplier 2 yields (256, 128). This pair,
  computed from the composed base configuration, is the size of the game that \<^verbatim>\<open>main\<close>
  starts.
\<close>

theorem window_size_width_height:
  "window_size (SizeInt k) m = ([], Inr (k * m, k * m)) \<and>
   window_size (SizeSeq [x, y]) m = ([], Inr (y * m, x * m)) \<and>
   window_size (SizeInt 64) 3 = ([], Inr (192, 192)) \<and>
   window_size (SizeSeq [64, 128]) 2 = ([], Inr (256, 128)) \<and>
   (snd (main wld argv) = Inr (Played g) \<longrightarrow>
      (\<exists>c. hydra_compose wld ''trainer'' = Some c \<and>
         snd (window_size (train_size (train (env c))) (size_multiplier (parse_args argv))) =
           Inr (g_size g)))"
  using main_Played [of wld argv g]
  by (auto simp: window_size_def bnd_def ret_def)

theorem window_size_width_height_witness:
  "snd (main (example_world ''track-a'' ''track-a'' False True) example_cli) =
     Inr (Played example_game) \<and>
   hydra_compose (example_world ''track-a'' ''track-a'' False True) ''trainer'' =
     Some example_cfg \<and>
   train_size (train (env example_cfg)) = SizeSeq [64, 128] \<and>
   size_multiplier (parse_args example_cli) = 2 \<and>
   g_size example_game = (256, 128)"
  using window_size_width_height
      [where wld = "example_world ''track-a'' ''track-a'' False True" and argv = example_cli
         and g = example_game]
    example_main
  by (simp add: example_world_sel example_args example_cfg_def example_env_cfg_def
      example_game_def)

subsection \<open>C4: the device\<close>

text \<open>
  C4. Lines 61--66 probe CUDA first, then MPS only when CUDA is unavailable, and fall
  back to the CPU: the selection always returns a device, the first available one in
  that order, and it returns the CPU exactly when neither CUDA nor MPS is available.
  The agent of every play environment that \<^verbatim>\<open>prepare_play_mode\<close> returns is on that
  device.
\<close>

theorem device_priority:
  "select_device wld =
     (if cuda_is_available wld then ([CudaProbe], Inr (Cuda 0))
      else if mps_is_available wld then ([CudaProbe, MpsProbe], Inr Mps)
      else ([CudaProbe, MpsProbe], Inr Cpu)) \<and>
   (\<exists>d. snd (select_device wld) = Inr d) \<and>
   (snd (select_device wld) = Inr Cpu) =
     (\<not> cuda_is_available wld \<and> \<not> mps_is_available wld) \<and>
   (snd (prepare_play_mode wld c a) = Inr pe \<longrightarrow>
      ag_device (pe_agent pe) =
        Some (if cuda_is_available wld then Cuda 0
              else if mps_is_available wld then Mps else Cpu))"
proof -
  have "ag_device (pe_agent pe) =
          Some (if cuda_is_available wld then Cuda 0
                else if mps_is_available wld then Mps else Cpu)"
    if "snd (prepare_play_mode wld c a) = Inr pe"
  proof -
    from that obtain n ck sp c' dev where
      d: "snd (select_device wld) = Inr dev" and
      b: "snd (build_play_env wld a n ck sp c' dev) = Inr pe"
      unfolding prepare_play_mode_Inr by blast
    from d have "dev = (if cuda_is_available wld then Cuda 0
                        else if mps_is_available wld then Mps else Cpu)"
      by (simp add: snd_select_device)
    with build_play_env_Inr(1) [OF b] show ?thesis by simp
  qed
  then show ?thesis
    by (simp add: select_device_eq)
qed

theorem device_priority_witness:
  "\<not> cuda_is_available (example_world ''track-a'' ''track-a'' False True) \<and>
   mps_is_available (example_world ''track-a'' ''track-a'' False True) \<and>
   select_device (example_world ''track-a'' ''track-a'' False True) =
     ([CudaProbe, MpsProbe], Inr Mps) \<and>
   snd (prepare_play_mode (example_world ''track-a'' ''track-a'' False True) example_cfg
          (parse_args example_cli)) = Inr (example_play_env Mps) \<and>
   ag_device (pe_agent (example_play_env Mps)) = Some Mps"
  using device_priority
      [where wld = "example_world ''track-a'' ''track-a'' False True" and c = example_cfg
         and a = "parse_args example_cli" and pe = "example_play_env Mps"]
    example_prepare_mps
  by (simp add: example_world_sel)

subsection \<open>C5: the bundle root\<close>

text \<open>
  C5, as the specification states it: with an override directory, the checkpoint path
  is \<^verbatim>\<open><override>/m/model/m.pt\<close> and the spawn directory \<^verbatim>\<open><override>/m/spawn\<close> for every
  model name \<^verbatim>\<open>m\<close>. Lines 54--55 join the override and the text with the operator \<^verbatim>\<open>/\<close>
  of \<^verbatim>\<open>pathlib\<close>, which drops its left operand when the right one begins with a slash.
  With \<^verbatim>\<open>--model /models\<close> and the name \<^verbatim>\<open>/track-a\<close> typed at the prompt, the paths derived
  are \<^verbatim>\<open>/track-a/model/track-a.pt\<close> and \<^verbatim>\<open>/track-a/spawn\<close>, outside \<^verbatim>\<open>/models\<close>. (The empty
  name does the same: \<^verbatim>\<open>/model/.pt\<close> and \<^verbatim>\<open>/spawn\<close>.)
\<close>

theorem override_paths_counterexample:
  "model (parse_args example_cli) = PyPath \<lparr>p_root = ''/'', p_parts = [''models'']\<rparr> \<and>
   derived_paths
     (load_model_config (example_world ''/track-a'' ''/track-a'' False True) example_cfg
        (parse_args example_cli)) =
     Some (\<lparr>p_root = ''/'', p_parts = [''track-a'', ''model'', ''track-a.pt'']\<rparr>,
           \<lparr>p_root = ''/'', p_parts = [''track-a'', ''spawn'']\<rparr>) \<and>
   derived_paths
     (load_model_config (example_world ''/track-a'' ''/track-a'' False True) example_cfg
        (parse_args example_cli)) \<noteq>
     Some (spec_path \<lparr>p_root = ''/'', p_parts = [''models'']\<rparr>
             (''/track-a'' @ ''/model/'' @ ''/track-a'' @ ''.pt''),
           spec_path \<lparr>p_root = ''/'', p_parts = [''models'']\<rparr> (''/track-a'' @ ''/spawn''))"
  by (simp add: run_defs example_defs derived_paths_def spec_path_def)

text \<open>
  C5, amended. When \<^verbatim>\<open>--model\<close> is given, \<^verbatim>\<open>args.model\<close> is a path; when \<^verbatim>\<open>args.model\<close> is
  a path, the loader does not contact the registry,
  and for every model name \<^verbatim>\<open>m\<close> that is not empty and does not begin with a slash the
  paths it derives are \<^verbatim>\<open><override>/m/model/m.pt\<close> and \<^verbatim>\<open><override>/m/spawn\<close>; for a name
  that is one plain component these are the override's components followed by
  \<^verbatim>\<open>m, model, m.pt\<close> and by \<^verbatim>\<open>m, spawn\<close>. When \<^verbatim>\<open>args.model\<close> is \<^verbatim>\<open>None\<close>, the registry is
  contacted once, for the repository \<^verbatim>\<open>DereWah/diamond-mariokart64\<close> with the allow
  pattern \<^verbatim>\<open>m/*\<close>; a command line without \<^verbatim>\<open>--model\<close> gives that \<^verbatim>\<open>None\<close>.
\<close>

theorem override_skips_registry:
  "(model a = PyPath ov \<longrightarrow>
      filter is_download (fst (prepare_play_mode wld c a)) = [] \<and>
      (stdin_line wld \<noteq> [] \<and> hd (stdin_line wld) \<noteq> CHR ''/'' \<longrightarrow>
         derived_paths (load_model_config wld c a) = None \<or>
         derived_paths (load_model_config wld c a) =
           Some (spec_path ov (stdin_line wld @ ''/model/'' @ stdin_line wld @ ''.pt''),
                 spec_path ov (stdin_line wld @ ''/spawn''))) \<and>
      (stdin_line wld \<noteq> [] \<and> stdin_line wld \<noteq> ''.'' \<and> CHR ''/'' \<notin> set (stdin_line wld) \<longrightarrow>
         derived_paths (load_model_config wld c a) = None \<or>
         derived_paths (load_model_config wld c a) =
           Some (\<lparr>p_root = p_root ov,
                  p_parts = p_parts ov @ [stdin_line wld, ''model'', stdin_line wld @ ''.pt'']\<rparr>,
                 \<lparr>p_root = p_root ov, p_parts = p_parts ov @ [stdin_line wld, ''spawn'']\<rparr>))) \<and>
   (model a = PyNone \<longrightarrow>
      filter is_download (fst (prepare_play_mode wld c a)) =
        [SnapshotDownload ''DereWah/diamond-mariokart64'' (stdin_line wld @ ''/*'')]) \<and>
   (cli_model argv = Some s \<longrightarrow>
      filter is_download (fst (prepare_play_mode wld c (parse_args argv))) = []) \<and>
   (cli_model argv = None \<longrightarrow>
      filter is_download (fst (prepare_play_mode wld c (parse_args argv))) =
        [SnapshotDownload ''DereWah/diamond-mariokart64'' (stdin_line wld @ ''/*'')])"
proof (intro conjI impI)
  assume ov: "model a = PyPath ov"
  show "filter is_download (fst (prepare_play_mode wld c a)) = []"
    using ov by (simp add: prepare_play_mode_downloads load_model_config_override)
  {
    assume rel: "stdin_line wld \<noteq> [] \<and> hd (stdin_line wld) \<noteq> CHR ''/''"
    show "derived_paths (load_model_config wld c a) = None \<or>
          derived_paths (load_model_config wld c a) =
            Some (spec_path ov (stdin_line wld @ ''/model/'' @ stdin_line wld @ ''.pt''),
                  spec_path ov (stdin_line wld @ ''/spawn''))"
      using derived_paths_override [OF ov, of wld c] rel
      by (simp add: truediv_relative)
  }
  {
    assume plain: "stdin_line wld \<noteq> [] \<and> stdin_line wld \<noteq> ''.'' \<and>
                   CHR ''/'' \<notin> set (stdin_line wld)"
    then have rel: "stdin_line wld \<noteq> []" "hd (stdin_line wld) \<noteq> CHR ''/''"
      by (cases "stdin_line wld"; auto)+
    from plain have p: "CHR ''/'' \<notin> set (stdin_line wld)" "stdin_line wld \<noteq> []"
        "stdin_line wld \<noteq> ''.''"
      by simp_all
    have ck: "truediv ov (stdin_line wld @ ''/model/'' @ stdin_line wld @ ''.pt'') =
              \<lparr>p_root = p_root ov,
               p_parts = p_parts ov @ [stdin_line wld, ''model'', stdin_line wld @ ''.pt'']\<rparr>"
      by (simp only: truediv_relative [OF rel] spec_path_def components_ckpt [OF p])
    have sp: "truediv ov (stdin_line wld @ ''/spawn'') =
              \<lparr>p_root = p_root ov, p_parts = p_parts ov @ [stdin_line wld, ''spawn'']\<rparr>"
      by (simp only: truediv_relative [OF rel] spec_path_def components_spawn [OF p])
    show "derived_paths (load_model_config wld c a) = None \<or>
          derived_paths (load_model_config wld c a) =
            Some (\<lparr>p_root = p_root ov,
                   p_parts = p_parts ov @ [stdin_line wld, ''model'', stdin_line wld @ ''.pt'']\<rparr>,
                  \<lparr>p_root = p_root ov, p_parts = p_parts ov @ [stdin_line wld, ''spawn'']\<rparr>)"
      using derived_paths_override [OF ov, of wld c] unfolding ck sp .
  }
next
  assume "model a = PyNone"
  then show "filter is_download (fst (prepare_play_mode wld c a)) =
        [SnapshotDownload ''DereWah/diamond-mariokart64'' (stdin_line wld @ ''/*'')]"
    by (simp add: prepare_play_mode_downloads load_model_config_remote)
next
  assume "cli_model argv = Some s"
  then have "model (parse_args argv) = PyPath (Path s)"
    by (simp add: parse_args_def)
  then show "filter is_download (fst (prepare_play_mode wld c (parse_args argv))) = []"
    by (simp add: prepare_play_mode_downloads load_model_config_override)
next
  assume "cli_model argv = None"
  then have "model (parse_args argv) = PyNone"
    by (simp add: parse_args_def)
  then show "filter is_download (fst (prepare_play_mode wld c (parse_args argv))) =
        [SnapshotDownload ''DereWah/diamond-mariokart64'' (stdin_line wld @ ''/*'')]"
    by (simp add: prepare_play_mode_downloads load_model_config_remote)
qed

theorem override_skips_registry_witness:
  "model (parse_args example_cli) = PyPath \<lparr>p_root = ''/'', p_parts = [''models'']\<rparr> \<and>
   stdin_line (example_world ''track-a'' ''track-a'' False True) = ''track-a'' \<and>
   filter is_download
     (fst (prepare_play_mode (example_world ''track-a'' ''track-a'' False True) example_cfg
        (parse_args example_cli))) = [] \<and>
   derived_paths
     (load_model_config (example_world ''track-a'' ''track-a'' False True) example_cfg
        (parse_args example_cli)) =
     Some (\<lparr>p_root = ''/'', p_parts = [''models'', ''track-a'', ''model'', ''track-a.pt'']\<rparr>,
           \<lparr>p_root = ''/'', p_parts = [''models'', ''track-a'', ''spawn'']\<rparr>) \<and>
   model (parse_args (example_cli\<lparr>cli_model := None\<rparr>)) = PyNone \<and>
   filter is_download
     (fst (prepare_play_mode (example_world ''track-a'' ''track-a'' False True) example_cfg
        (parse_args (example_cli\<lparr>cli_model := None\<rparr>)))) =
     [SnapshotDownload ''DereWah/diamond-mariokart64'' ''track-a/*'']"
  using override_skips_registry
      [where a = "parse_args example_cli" and ov = "\<lparr>p_root = ''/'', p_parts = [''models'']\<rparr>"
         and wld = "example_world ''track-a'' ''track-a'' False True" and c = example_cfg]
    override_skips_registry
      [where a = "parse_args (example_cli\<lparr>cli_model := None\<rparr>)"
         and wld = "example_world ''track-a'' ''track-a'' False True" and c = example_cfg]
    example_load [of "''track-a''" False True]
  by (simp add: example_args example_world_sel derived_paths_def)

subsection \<open>C6: the empty \<^verbatim>\<open>--model\<close> argument\<close>

text \<open>
  C6. The specification says that \<^verbatim>\<open>--model ""\<close> is treated like a missing \<^verbatim>\<open>--model\<close>, and
  line 49 compares \<^verbatim>\<open>args.model\<close> with \<^verbatim>\<open>""\<close> to that end. The option is declared with
  \<^verbatim>\<open>type=Path\<close> (line 33), so the empty string arrives as \<^verbatim>\<open>Path("")\<close>, which is equal
  neither to \<^verbatim>\<open>""\<close> nor to \<^verbatim>\<open>None\<close>: the run takes the override branch, with the current
  directory as the bundle root, and never contacts the registry, while the run without
  \<^verbatim>\<open>--model\<close> does.
\<close>

theorem empty_model_option_is_an_override:
  "model (parse_args (argv\<lparr>cli_model := Some []\<rparr>)) = PyPath \<lparr>p_root = [], p_parts = []\<rparr> \<and>
   filter is_download
     (fst (prepare_play_mode wld c (parse_args (argv\<lparr>cli_model := Some []\<rparr>)))) = [] \<and>
   filter is_download
     (fst (prepare_play_mode wld c (parse_args (argv\<lparr>cli_model := None\<rparr>)))) =
     [SnapshotDownload ''DereWah/diamond-mariokart64'' (stdin_line wld @ ''/*'')]"
proof -
  have m: "model (parse_args (argv\<lparr>cli_model := Some []\<rparr>)) =
           PyPath \<lparr>p_root = [], p_parts = []\<rparr>"
    by (simp add: parse_args_def Path_def splitroot_def components_def)
  have n: "model (parse_args (argv\<lparr>cli_model := None\<rparr>)) = PyNone"
    by (simp add: parse_args_def)
  show ?thesis
    using m n
    by (simp add: prepare_play_mode_downloads load_model_config_override
        load_model_config_remote)
qed

subsection \<open>C7: compilation\<close>

text \<open>
  C7. When CUDA is unavailable, a run with \<^verbatim>\<open>--compile\<close> is the run without it: the same
  effects, the same exception or the same play environment, so the flag makes nothing
  fail and changes no call path. In every play environment that \<^verbatim>\<open>prepare_play_mode\<close>
  returns, \<^verbatim>\<open>predict_next_obs\<close> and \<^verbatim>\<open>upsample_next_obs\<close> are the compiled replacements
  (mode \<^verbatim>\<open>reduce-overhead\<close>) exactly when \<^verbatim>\<open>--compile\<close> was given and the type of the
  agent's device is \<^verbatim>\<open>cuda\<close>, and the original methods otherwise (lines 82--85).
\<close>

theorem compile_only_on_cuda:
  "(\<not> cuda_is_available wld \<longrightarrow>
      prepare_play_mode wld c (a\<lparr>compile := True\<rparr>) =
      prepare_play_mode wld c (a\<lparr>compile := False\<rparr>)) \<and>
   (snd (prepare_play_mode wld c a) = Inr pe \<longrightarrow>
      (\<exists>dev. ag_device (pe_agent pe) = Some dev \<and>
         predict_next_obs (pe_wm_env pe) =
           (if compile a \<and> device_type dev = ''cuda''
            then Compiled (Method ''predict_next_obs'') ''reduce-overhead''
            else Method ''predict_next_obs'') \<and>
         upsample_next_obs (pe_wm_env pe) =
           (if compile a \<and> device_type dev = ''cuda''
            then Compiled (Method ''upsample_next_obs'') ''reduce-overhead''
            else Method ''upsample_next_obs'')))"
proof (intro conjI impI)
  assume nc: "\<not> cuda_is_available wld"
  define d where "d = (if mps_is_available wld then Mps else Cpu)"
  have dt: "device_type d \<noteq> ''cuda''"
    by (simp add: d_def)
  have sd: "select_device wld = (fst (select_device wld), Inr d)"
    using nc by (simp add: select_device_eq d_def)
  show "prepare_play_mode wld c (a\<lparr>compile := True\<rparr>) =
        prepare_play_mode wld c (a\<lparr>compile := False\<rparr>)"
    unfolding prepare_play_mode_def load_model_config_args
    by (subst (1 2) sd)
      (simp add: bnd_def build_play_env_no_compile [OF dt] split: sum.splits prod.splits)
next
  assume ok: "snd (prepare_play_mode wld c a) = Inr pe"
  then obtain n ck sp c' dev where
    b: "snd (build_play_env wld a n ck sp c' dev) = Inr pe"
    unfolding prepare_play_mode_Inr by blast
  show "\<exists>dev. ag_device (pe_agent pe) = Some dev \<and>
         predict_next_obs (pe_wm_env pe) =
           (if compile a \<and> device_type dev = ''cuda''
            then Compiled (Method ''predict_next_obs'') ''reduce-overhead''
            else Method ''predict_next_obs'') \<and>
         upsample_next_obs (pe_wm_env pe) =
           (if compile a \<and> device_type dev = ''cuda''
            then Compiled (Method ''upsample_next_obs'') ''reduce-overhead''
            else Method ''upsample_next_obs'')"
    using build_play_env_Inr(1) [OF b] build_play_env_call_paths [OF b]
    by (intro exI [of _ dev]) simp
qed

theorem compile_only_on_cuda_witness:
  "\<not> cuda_is_available (example_world ''track-a'' ''track-a'' False True) \<and>
   compile (parse_args example_cli) \<and>
   prepare_play_mode (example_world ''track-a'' ''track-a'' False True) example_cfg
     ((parse_args example_cli)\<lparr>compile := True\<rparr>) =
   prepare_play_mode (example_world ''track-a'' ''track-a'' False True) example_cfg
     ((parse_args example_cli)\<lparr>compile := False\<rparr>) \<and>
   snd (prepare_play_mode (example_world ''track-a'' ''track-a'' False True) example_cfg
          (parse_args example_cli)) = Inr (example_play_env Mps) \<and>
   predict_next_obs (pe_wm_env (example_play_env Mps)) = Method ''predict_next_obs'' \<and>
   upsample_next_obs (pe_wm_env (example_play_env Mps)) = Method ''upsample_next_obs'' \<and>
   snd (prepare_play_mode (example_world ''track-a'' ''track-a'' True False) example_cfg
          (parse_args example_cli)) = Inr (example_play_env (Cuda 0)) \<and>
   predict_next_obs (pe_wm_env (example_play_env (Cuda 0))) =
     Compiled (Method ''predict_next_obs'') ''reduce-overhead'' \<and>
   upsample_next_obs (pe_wm_env (example_play_env (Cuda 0))) =
     Compiled (Method ''upsample_next_obs'') ''reduce-overhead''"
  using compile_only_on_cuda
      [where wld = "example_world ''track-a'' ''track-a'' False True" and c = example_cfg
         and a = "parse_args example_cli" and pe = "example_play_env Mps"]
    compile_only_on_cuda
      [where wld = "example_world ''track-a'' ''track-a'' True False" and c = example_cfg
         and a = "parse_args example_cli" and pe = "example_play_env (Cuda 0)"]
    example_prepare_mps example_prepare_cuda
  by (simp add: example_world_sel example_args example_play_env_def)

subsection \<open>C8: retention flags without recording\<close>

text \<open>
  C8. When \<^verbatim>\<open>--record\<close> is absent and one of \<^verbatim>\<open>--store-denoising-trajectory\<close> and
  \<^verbatim>\<open>--store-original-obs\<close> is present, \<^verbatim>\<open>check_args\<close> prints the warning and returns
  \<^verbatim>\<open>True\<close>, and \<^verbatim>\<open>main\<close> goes on: its effects are the warning followed by those of lines
  105--114, beginning with the composition of the configuration, and its outcome is
  theirs. It does not return at the guard, and it fails or succeeds exactly as the same
  command line with \<^verbatim>\<open>--record\<close> does, with the same effects after the warning.
\<close>

theorem retention_flags_only_warn:
  assumes "\<not> cli_record argv"
    and "cli_store_denoising_trajectory argv \<or> cli_store_original_obs argv"
  shows "check_args (parse_args argv) =
           ([Print ''Warning: not in recording mode, ignoring --store* options''], Inr True) \<and>
         main wld argv =
           (Print ''Warning: not in recording mode, ignoring --store* options'' #
              fst (start_session wld (parse_args argv)),
            snd (start_session wld (parse_args argv))) \<and>
         take 2 (fst (main wld argv)) =
           [Print ''Warning: not in recording mode, ignoring --store* options'',
            HydraCompose ''trainer''] \<and>
         snd (main wld argv) \<noteq> Inr ReturnedEarly \<and>
         fst (main wld argv) =
           Print ''Warning: not in recording mode, ignoring --store* options'' #
           fst (main wld (argv\<lparr>cli_record := True\<rparr>)) \<and>
         isl (snd (main wld argv)) = isl (snd (main wld (argv\<lparr>cli_record := True\<rparr>)))"
proof -
  let ?w = "Print ''Warning: not in recording mode, ignoring --store* options''"
  have chk: "check_args (parse_args argv) = ([?w], Inr True)"
    using assms by (auto simp: check_args_eq parse_args_def)
  have chk': "check_args ((parse_args argv)\<lparr>record_flag := True\<rparr>) = ([], Inr True)"
    by (simp add: check_args_eq)
  have m: "main wld argv =
             (?w # fst (start_session wld (parse_args argv)),
              snd (start_session wld (parse_args argv)))"
    by (simp add: main_eq chk)
  have m': "main wld (argv\<lparr>cli_record := True\<rparr>) =
              (fst (start_session wld ((parse_args argv)\<lparr>record_flag := True\<rparr>)),
               snd (start_session wld ((parse_args argv)\<lparr>record_flag := True\<rparr>)))"
    by (simp add: main_eq parse_args_record chk')
  have t: "take 2 (fst (main wld argv)) = [?w, HydraCompose ''trainer'']"
    using start_session_begins [of wld "parse_args argv"]
    by (simp add: m numeral_2_eq_2)
  show ?thesis
    using chk m t main_not_early [of wld argv]
    by (simp add: m' start_session_record_flag)
qed

theorem retention_flags_only_warn_witness:
  "\<not> cli_record example_cli \<and>
   cli_store_denoising_trajectory example_cli \<and>
   take 2 (fst (main (example_world ''track-a'' ''track-a'' False True) example_cli)) =
     [Print ''Warning: not in recording mode, ignoring --store* options'',
      HydraCompose ''trainer''] \<and>
   snd (main (example_world ''track-a'' ''track-a'' False True) example_cli) =
     Inr (Played example_game)"
proof -
  have a1: "\<not> cli_record example_cli"
    by (simp add: example_cli_def)
  have a2: "cli_store_denoising_trajectory example_cli \<or> cli_store_original_obs example_cli"
    by (simp add: example_cli_def)
  have a3: "cli_store_denoising_trajectory example_cli"
    by (simp add: example_cli_def)
  note t = retention_flags_only_warn
    [OF a1 a2, of "example_world ''track-a'' ''track-a'' False True",
     THEN conjunct2, THEN conjunct2, THEN conjunct1]
  show ?thesis
    by (rule conjI [OF a1 conjI [OF a3 conjI [OF t example_main]]])
qed

subsection \<open>C9: the denoising trajectory of the world model environment\<close>

text \<open>
  C9. Every world model environment that \<^verbatim>\<open>prepare_play_mode\<close> constructs, on every run,
  is constructed with \<^verbatim>\<open>return_denoising_trajectory=True\<close> (line 80), and so is the one
  inside the play environment returned. \<^verbatim>\<open>--store-denoising-trajectory\<close> is handed to
  the play environment (line 91) and to nothing else: changing it changes neither the
  effects of the run nor the world model environment.
\<close>

theorem world_model_env_always_returns_trajectory:
  "list_all return_denoising_trajectory (wm_envs_built (fst (prepare_play_mode wld c a))) \<and>
   (snd (prepare_play_mode wld c a) = Inr pe \<longrightarrow>
      return_denoising_trajectory (pe_wm_env pe) \<and>
      pe_store_denoising_trajectory pe = store_denoising_trajectory a) \<and>
   fst (prepare_play_mode wld c (a\<lparr>store_denoising_trajectory := b\<rparr>)) =
     fst (prepare_play_mode wld c a) \<and>
   map_sum id pe_wm_env (snd (prepare_play_mode wld c (a\<lparr>store_denoising_trajectory := b\<rparr>))) =
     map_sum id pe_wm_env (snd (prepare_play_mode wld c a))"
proof -
  have "return_denoising_trajectory (pe_wm_env pe) \<and>
        pe_store_denoising_trajectory pe = store_denoising_trajectory a"
    if "snd (prepare_play_mode wld c a) = Inr pe"
  proof -
    from that obtain n ck sp c' dev where
      b: "snd (build_play_env wld a n ck sp c' dev) = Inr pe"
      unfolding prepare_play_mode_Inr by blast
    show ?thesis
      using build_play_env_Inr(2) [OF b] build_play_env_Inr(3) [OF b] by simp
  qed
  moreover have "map_sum id pe_wm_env
       (snd (prepare_play_mode wld c (a\<lparr>store_denoising_trajectory := b\<rparr>))) =
     map_sum id pe_wm_env (snd (prepare_play_mode wld c a))"
    by (cases "snd (prepare_play_mode wld c a)") (simp_all add: prepare_play_mode_store_flag)
  ultimately show ?thesis
    by (simp add: prepare_play_mode_wm_envs prepare_play_mode_store_flag)
qed

theorem world_model_env_always_returns_trajectory_witness:
  "snd (prepare_play_mode (example_world ''track-a'' ''track-a'' False True) example_cfg
          (parse_args example_cli)) = Inr (example_play_env Mps) \<and>
   store_denoising_trajectory (parse_args example_cli) \<and>
   return_denoising_trajectory (pe_wm_env (example_play_env Mps)) \<and>
   pe_store_denoising_trajectory (example_play_env Mps) \<and>
   map_sum id pe_wm_env
     (snd (prepare_play_mode (example_world ''track-a'' ''track-a'' False True) example_cfg
        ((parse_args example_cli)\<lparr>store_denoising_trajectory := False\<rparr>))) =
     Inr (pe_wm_env (example_play_env Mps))"
  using world_model_env_always_returns_trajectory
      [where wld = "example_world ''track-a'' ''track-a'' False True" and c = example_cfg
         and a = "parse_args example_cli" and pe = "example_play_env Mps" and b = False]
    example_prepare_mps
  by (simp add: example_args)

subsection \<open>C10: the check of the arguments\<close>

text \<open>
  C10. \<^verbatim>\<open>check_args\<close> returns \<^verbatim>\<open>True\<close> for every namespace of options, and prints either
  nothing or the one warning; so \<^verbatim>\<open>main\<close> never returns at the guard of lines 102--103.
\<close>

theorem check_args_always_true:
  "snd (check_args a) = Inr True \<and>
   (fst (check_args a) = [] \<or>
    fst (check_args a) = [Print ''Warning: not in recording mode, ignoring --store* options'']) \<and>
   snd (main wld argv) \<noteq> Inr ReturnedEarly"
  by (simp add: check_args_eq main_not_early)

end
